theory Spec2Isabelle
  imports Complex_Main
begin

section \<open>Numbers and rounding\<close>

text \<open>
  The invoice engine computes on JavaScript numbers. They are modelled as exact
  rationals: every arithmetic operation of the source is the corresponding exact
  operation, so representation error of IEEE-754 doubles and overflow are outside the
  model. A division whose divisor can be zero in the source is modelled with
  \<open>jsdiv\<close>, which has no finite result there.

  \<open>x || d\<close> on a number that may be absent takes \<open>d\<close> when \<open>x\<close> is
  \<open>undefined\<close>, \<open>NaN\<close> or \<open>0\<close>; \<open>x ?? d\<close> takes \<open>d\<close> only when \<open>x\<close> is
  absent.
\<close>

definition falsy_or :: "rat option \<Rightarrow> rat \<Rightarrow> rat" where
  "falsy_or x d = (case x of None \<Rightarrow> d | Some v \<Rightarrow> if v = 0 then d else v)"

definition nullish_or :: "rat option \<Rightarrow> rat \<Rightarrow> rat" where
  "nullish_or x d = (case x of None \<Rightarrow> d | Some v \<Rightarrow> v)"

text \<open>\<open>Math.round\<close>: the nearest integer, a tie going up.\<close>

definition Math_round :: "rat \<Rightarrow> int" where
  "Math_round x = \<lfloor>x + 1 / 2\<rfloor>"

text \<open>\<open>const r2 = (n) => Math.round(n * 100) / 100\<close>\<close>

definition r2 :: "rat \<Rightarrow> rat" where
  "r2 n = of_int (Math_round (n * 100)) / 100"

text \<open>A quotient of the source that is not finite when the divisor is zero.\<close>

definition jsdiv :: "rat \<Rightarrow> rat \<Rightarrow> rat option" where
  "jsdiv a b = (if b = 0 then None else Some (a / b))"

section \<open>Line item valuation\<close>

record TimeBasedParams =
  rate :: rat
  hours :: rat
  modifierMultiplier :: rat
  distance :: "rat option"
  mileageRate :: "rat option"

definition calculateTimeBasedLineTotal :: "TimeBasedParams \<Rightarrow> rat" where
  "calculateTimeBasedLineTotal params =
     (let basePay = falsy_or (Some (rate params)) 0 * falsy_or (Some (hours params)) 0
                      * falsy_or (Some (modifierMultiplier params)) 1;
          mileage = falsy_or (distance params) 0 * falsy_or (mileageRate params) 0
      in r2 (basePay + mileage))"

text \<open>
  The part of the store that line valuation reads: the \<open>rate_modifiers\<close> rows (the
  multiplier of an id) and the \<open>mileageRate\<close> setting.
\<close>

record RateModifier =
  rm_id :: string
  rm_name :: string
  multiplier :: rat
  description :: "string option"
  isDefault :: bool

record LineTaxInput =
  percent :: rat
  taxNote :: "string option"

record Item =
  itemDescription :: string
  quantity :: "rat option"
  unitPrice :: "rat option"
  itemHours :: "rat option"
  itemRate :: "rat option"
  rateModifierId :: "string option"
  itemDistance :: "rat option"
  taxes :: "LineTaxInput list"

text \<open>\<open>SELECT multiplier FROM rate_modifiers WHERE id = ?\<close>, the first row.\<close>

definition selectMultiplier :: "RateModifier list \<Rightarrow> string \<Rightarrow> rat option" where
  "selectMultiplier rows i = map_option multiplier (find (\<lambda>r. rm_id r = i) rows)"

text \<open>
  The resolution of the multiplier in \<open>createInvoice\<close> and \<open>updateInvoice\<close>: 1.0
  unless the item names a modifier (a non-empty id) that the table has, and then
  \<open>Number(multiplier) || 1.0\<close>.
\<close>

definition resolveMultiplier :: "RateModifier list \<Rightarrow> string option \<Rightarrow> rat" where
  "resolveMultiplier rows mid =
     (case mid of
        None \<Rightarrow> 1
      | Some i \<Rightarrow>
          if i = [] then 1
          else (case selectMultiplier rows i of
                  None \<Rightarrow> 1
                | Some m \<Rightarrow> falsy_or (Some m) 1))"

text \<open>The mileage rate: 0.70 unless the setting is stored, and then \<open>Number(value) || 0.70\<close>.\<close>

definition resolveMileageRate :: "rat option \<Rightarrow> rat" where
  "resolveMileageRate setting =
     (case setting of None \<Rightarrow> 7 / 10 | Some v \<Rightarrow> falsy_or (Some v) (7 / 10))"

text \<open>
  The line total that \<open>createInvoice\<close> and \<open>updateInvoice\<close> persist for one item:
  time based when \<open>hours\<close> is present and positive, quantity times unit price
  otherwise.
\<close>

definition isTimeBased :: "Item \<Rightarrow> bool" where
  "isTimeBased item = (case itemHours item of None \<Rightarrow> False | Some h \<Rightarrow> h > 0)"

definition lineTotal :: "RateModifier list \<Rightarrow> rat option \<Rightarrow> Item \<Rightarrow> rat" where
  "lineTotal rows setting item =
     (if isTimeBased item then
        calculateTimeBasedLineTotal
          \<lparr> rate = falsy_or (itemRate item) 0,
            hours = falsy_or (itemHours item) 0,
            modifierMultiplier = resolveMultiplier rows (rateModifierId item),
            distance = itemDistance item,
            mileageRate = Some (resolveMileageRate setting) \<rparr>
      else nullish_or (quantity item) 0 * nullish_or (unitPrice item) 0)"

section \<open>Invoice totals\<close>

datatype RoundingMode = Line | Total

record CalculatedTotals =
  subtotal :: rat
  discountAmount :: rat
  taxAmount :: rat
  total :: rat

text \<open>\<open>xs.reduce((a, b) => a + b, 0)\<close>\<close>

definition sum_reduce :: "rat list \<Rightarrow> rat" where
  "sum_reduce xs = foldl (+) 0 xs"

text \<open>
  The discount of both calculators: the flat amount, replaced by the percentage of the
  subtotal when the percentage is positive, then capped.
\<close>

definition finalDiscount :: "rat \<Rightarrow> rat \<Rightarrow> rat \<Rightarrow> rat" where
  "finalDiscount sub discountPercentage discountAmt =
     (let f0 = falsy_or (Some discountAmt) 0;
          f1 = (if discountPercentage > 0 then sub * (discountPercentage / 100) else f0)
      in min (max f1 0) sub)"

text \<open>
  \<open>lineGrosses.map((g, idx) => ...)\<close> of \<open>calculateInvoiceTotals\<close>, with the running
  \<open>distributed\<close> as an argument. The map runs only where \<open>subtotal > 0\<close>.
\<close>

fun lineDiscounts :: "rat \<Rightarrow> rat \<Rightarrow> rat \<Rightarrow> rat list \<Rightarrow> rat list" where
  "lineDiscounts fd sub distributed [] = []"
| "lineDiscounts fd sub distributed [g] = [r2 (fd - distributed)]"
| "lineDiscounts fd sub distributed (g # gs) =
     (let share = g / sub; d = r2 (fd * share)
      in d # lineDiscounts fd sub (distributed + d) gs)"


definition lineGrosses :: "Item list \<Rightarrow> rat list" where
  "lineGrosses its = map (\<lambda>it. falsy_or (quantity it) 0 * falsy_or (unitPrice it) 0) its"

text \<open>One round of the loop of the line rounding mode: what it adds to \<open>sumTax\<close> and \<open>sumTotal\<close>.\<close>

definition lineStep :: "bool \<Rightarrow> rat \<Rightarrow> rat \<times> rat \<Rightarrow> rat \<times> rat \<Rightarrow> rat \<times> rat" where
  "lineStep pricesIncludeTax rt acc gl =
     (let gross = fst gl; ld = falsy_or (Some (snd gl)) 0;
          afterDiscount = max 0 (gross - ld)
      in if pricesIncludeTax then
           (let net = (if rt > 0 then afterDiscount / (1 + rt) else afterDiscount);
                tax = afterDiscount - net
            in (fst acc + r2 tax, snd acc + r2 afterDiscount))
         else
           (let tax = afterDiscount * rt
            in (fst acc + r2 tax, snd acc + r2 (afterDiscount + r2 tax))))"

text \<open>The branch of the line rounding mode: the discount spread over the lines, each line rounded.\<close>

definition lineRounding :: "bool \<Rightarrow> rat \<Rightarrow> rat \<Rightarrow> rat \<Rightarrow> rat list \<Rightarrow> rat \<times> rat" where
  "lineRounding pricesIncludeTax rt fd sub grosses =
     (let lds = lineDiscounts fd sub 0 grosses;
          st = foldl (lineStep pricesIncludeTax rt) (0, 0) (zip grosses lds)
      in (r2 (fst st), r2 (snd st)))"

text \<open>The branch of the total rounding mode: tax amount and total from the sums.\<close>

definition totalRounding :: "bool \<Rightarrow> rat \<Rightarrow> rat \<Rightarrow> rat \<Rightarrow> rat \<times> rat" where
  "totalRounding pricesIncludeTax rt fd sub =
     (let afterDiscount = sub - fd
      in if pricesIncludeTax then
           (let net = (if rt > 0 then afterDiscount / (1 + rt) else afterDiscount)
            in (r2 (afterDiscount - net), r2 afterDiscount))
         else
           (let ta = r2 (afterDiscount * rt)
            in (ta, r2 (afterDiscount + ta))))"

definition calculateInvoiceTotals ::
  "Item list \<Rightarrow> rat \<Rightarrow> rat \<Rightarrow> rat \<Rightarrow> bool \<Rightarrow> RoundingMode \<Rightarrow> CalculatedTotals" where
  "calculateInvoiceTotals its discountPercentage discountAmt taxRate pricesIncludeTax roundingMode =
     (let rt = max 0 (falsy_or (Some taxRate) 0) / 100;
          grosses = lineGrosses its;
          sub = sum_reduce grosses;
          fd = finalDiscount sub discountPercentage discountAmt;
          tt = (if roundingMode = Line \<and> sub > 0
                then lineRounding pricesIncludeTax rt fd sub grosses
                else totalRounding pricesIncludeTax rt fd sub)
      in \<lparr> subtotal = r2 sub, discountAmount = r2 fd,
           taxAmount = r2 (fst tt), total = r2 (snd tt) \<rparr>)"

subsection \<open>The recalculation pass of createInvoice and updateInvoice\<close>

text \<open>
  After the items are stored, both functions recompute the totals from the stored line
  totals when no line has taxes of its own (\<open>hasPerLineTaxes\<close> below is false), and
  store the recomputed totals in place of the calculated ones. The quotient by \<open>1 + taxRate / 100\<close> is
  taken as it stands; where the divisor is zero the pass has no finite totals, which is
  \<open>None\<close> here.
\<close>

definition recalculate ::
  "rat list \<Rightarrow> rat \<Rightarrow> rat \<Rightarrow> rat \<Rightarrow> bool \<Rightarrow> CalculatedTotals option" where
  "recalculate lineTotals discountPercentage discountAmt taxRate pricesIncludeTax =
     (let sub = sum_reduce lineTotals;
          f0 = falsy_or (Some discountAmt) 0;
          f1 = (if discountPercentage \<noteq> 0 \<and> discountPercentage > 0
                then sub * (discountPercentage / 100) else f0);
          fd = min (max f1 0) sub;
          afterDiscount = sub - fd
      in if pricesIncludeTax then
           (case jsdiv afterDiscount (1 + taxRate / 100) of
              None \<Rightarrow> None
            | Some q \<Rightarrow>
                Some \<lparr> subtotal = of_int (Math_round (sub * 100)) / 100,
                       discountAmount = of_int (Math_round (fd * 100)) / 100,
                       taxAmount = of_int (Math_round ((afterDiscount - q) * 100)) / 100,
                       total = of_int (Math_round (afterDiscount * 100)) / 100 \<rparr>)
         else
           (let ta = afterDiscount * (taxRate / 100)
            in Some \<lparr> subtotal = of_int (Math_round (sub * 100)) / 100,
                      discountAmount = of_int (Math_round (fd * 100)) / 100,
                      taxAmount = of_int (Math_round (ta * 100)) / 100,
                      total = of_int (Math_round ((afterDiscount + ta) * 100)) / 100 \<rparr>))"

text \<open>The request data and the settings that decide the configuration.\<close>

record InvoiceData =
  data_items :: "Item list"
  data_discountPercentage :: "rat option"
  data_discountAmount :: "rat option"
  data_taxRate :: "rat option"
  data_pricesIncludeTax :: "bool option"
  data_roundingMode :: "RoundingMode option"

record Defaults =
  defaultPricesIncludeTax :: bool
  defaultRoundingMode :: RoundingMode
  defaultTaxRate :: rat

definition hasPerLineTaxes :: "Item list \<Rightarrow> bool" where
  "hasPerLineTaxes its = list_ex (\<lambda>i. length (taxes i) > 0) its"

definition bool_or :: "bool option \<Rightarrow> bool \<Rightarrow> bool" where
  "bool_or x d = (case x of None \<Rightarrow> d | Some b \<Rightarrow> b)"

definition mode_or :: "RoundingMode option \<Rightarrow> RoundingMode \<Rightarrow> RoundingMode" where
  "mode_or x d = (case x of None \<Rightarrow> d | Some m \<Rightarrow> m)"

text \<open>\<open>createInvoice\<close>, invoice-level tax path: the totals of the first calculation.\<close>

definition createInvoice_calculated :: "InvoiceData \<Rightarrow> Defaults \<Rightarrow> CalculatedTotals" where
  "createInvoice_calculated data dflt =
     calculateInvoiceTotals (data_items data)
       (falsy_or (data_discountPercentage data) 0)
       (falsy_or (data_discountAmount data) 0)
       (falsy_or (Some (nullish_or (data_taxRate data) (defaultTaxRate dflt))) 0)
       (bool_or (data_pricesIncludeTax data) (defaultPricesIncludeTax dflt))
       (mode_or (data_roundingMode data) (defaultRoundingMode dflt))"

text \<open>\<open>createInvoice\<close>: the totals of the recalculation, which are the ones stored.\<close>

definition createInvoice_recalculated ::
  "RateModifier list \<Rightarrow> rat option \<Rightarrow> InvoiceData \<Rightarrow> Defaults \<Rightarrow> CalculatedTotals option" where
  "createInvoice_recalculated rows setting data dflt =
     recalculate (map (lineTotal rows setting) (data_items data))
       (falsy_or (data_discountPercentage data) 0)
       (falsy_or (data_discountAmount data) 0)
       (falsy_or (Some (nullish_or (data_taxRate data) (defaultTaxRate dflt))) 0)
       (bool_or (data_pricesIncludeTax data) (defaultPricesIncludeTax dflt))"

text \<open>
  \<open>updateInvoice\<close> with items in the request: absent fields fall back to the existing
  invoice.
\<close>

record Existing =
  ex_discountPercentage :: rat
  ex_discountAmount :: rat
  ex_taxRate :: rat
  ex_pricesIncludeTax :: "bool option"
  ex_roundingMode :: "RoundingMode option"


definition updateInvoice_recalculated ::
  "RateModifier list \<Rightarrow> rat option \<Rightarrow> InvoiceData \<Rightarrow> Existing \<Rightarrow> CalculatedTotals option" where
  "updateInvoice_recalculated rows setting data existing =
     recalculate (map (lineTotal rows setting) (data_items data))
       (nullish_or (data_discountPercentage data) (ex_discountPercentage existing))
       (nullish_or (data_discountAmount data) (ex_discountAmount existing))
       (nullish_or (data_taxRate data) (ex_taxRate existing))
       (bool_or (data_pricesIncludeTax data) (bool_or (ex_pricesIncludeTax existing) False))"

section \<open>Totals with per-line taxes\<close>











section \<open>Rate modifiers\<close>

text \<open>
  The tables that the rate modifier controller reads and writes: the rows of
  \<open>rate_modifiers\<close>, and of \<open>invoice_items\<close> the column \<open>rate_modifier_id\<close>. The
  time stamps of a row play no part in what follows and are left out.
\<close>

record Store =
  rate_modifiers :: "RateModifier list"
  invoice_items :: "string option list"

datatype error =
    NotFound
  | CannotDeleteDefault
  | InUse nat
  | ConstraintFailed

definition getRateModifierById :: "Store \<Rightarrow> string \<Rightarrow> RateModifier option" where
  "getRateModifierById db i = find (\<lambda>r. rm_id r = i) (rate_modifiers db)"

text \<open>\<open>UPDATE rate_modifiers SET is_default = 0\<close>\<close>

definition unsetDefaults :: "Store \<Rightarrow> Store" where
  "unsetDefaults db = db\<lparr> rate_modifiers := map (\<lambda>r. r\<lparr>isDefault := False\<rparr>) (rate_modifiers db) \<rparr>"

record CreateData =
  cd_name :: string
  cd_multiplier :: rat
  cd_description :: "string option"
  cd_isDefault :: "bool option"

text \<open>
  \<open>createRateModifier\<close>; the id is what \<open>generateUUID\<close> returned. The insert fails on
  a primary key that the table has, after the defaults were unset.
\<close>

definition createRateModifier ::
  "string \<Rightarrow> CreateData \<Rightarrow> Store \<Rightarrow> (error + RateModifier) \<times> Store" where
  "createRateModifier newId data db =
     (let isDef = bool_or (cd_isDefault data) False;
          db1 = (if isDef then unsetDefaults db else db);
          row = \<lparr> rm_id = newId, rm_name = cd_name data, multiplier = cd_multiplier data,
                  description = cd_description data, isDefault = isDef \<rparr>
      in if list_ex (\<lambda>r. rm_id r = newId) (rate_modifiers db1) then (Inl ConstraintFailed, db1)
         else (Inr row, db1\<lparr> rate_modifiers := rate_modifiers db1 @ [row] \<rparr>))"

record UpdateData =
  ud_name :: "string option"
  ud_multiplier :: "rat option"
  ud_description :: "string option"
  ud_isDefault :: "bool option"

definition updateRateModifier ::
  "string \<Rightarrow> UpdateData \<Rightarrow> Store \<Rightarrow> RateModifier option \<times> Store" where
  "updateRateModifier i data db =
     (case getRateModifierById db i of
        None \<Rightarrow> (None, db)
      | Some existing \<Rightarrow>
          (let name = (case ud_name data of None \<Rightarrow> rm_name existing | Some n \<Rightarrow> n);
               mult = nullish_or (ud_multiplier data) (multiplier existing);
               descr = (case ud_description data of None \<Rightarrow> description existing
                        | Some d \<Rightarrow> Some d);
               isDef = bool_or (ud_isDefault data) (isDefault existing);
               db1 = (if isDef \<and> \<not> isDefault existing then unsetDefaults db else db);
               db2 = db1\<lparr> rate_modifiers :=
                       map (\<lambda>r. if rm_id r = i
                                 then r\<lparr> rm_name := name, multiplier := mult,
                                         description := descr, isDefault := isDef \<rparr>
                                 else r) (rate_modifiers db1) \<rparr>
           in (getRateModifierById db2 i, db2)))"

text \<open>\<open>SELECT COUNT(*) FROM invoice_items WHERE rate_modifier_id = ?\<close>\<close>

definition countUses :: "Store \<Rightarrow> string \<Rightarrow> nat" where
  "countUses db i = length (filter (\<lambda>m. m = Some i) (invoice_items db))"

text \<open>\<open>deleteRateModifier\<close>: the error thrown, if any, and the store afterwards.\<close>

definition deleteRateModifier :: "string \<Rightarrow> Store \<Rightarrow> error option \<times> Store" where
  "deleteRateModifier i db =
     (case getRateModifierById db i of
        None \<Rightarrow> (Some NotFound, db)
      | Some modifier \<Rightarrow>
          if isDefault modifier then (Some CannotDeleteDefault, db)
          else (let n = countUses db i
                in if n > 0 then (Some (InUse n), db)
                   else (None, db\<lparr> rate_modifiers :=
                                   filter (\<lambda>r. rm_id r \<noteq> i) (rate_modifiers db) \<rparr>)))"

text \<open>Exactly one modifier is flagged as the default.\<close>

definition exactlyOneDefault :: "Store \<Rightarrow> bool" where
  "exactlyOneDefault db = (length (filter isDefault (rate_modifiers db)) = 1)"

definition atMostOneDefault :: "Store \<Rightarrow> bool" where
  "atMostOneDefault db = (length (filter isDefault (rate_modifiers db)) \<le> 1)"





section \<open>Example data\<close>

text \<open>A line billed by quantity and unit price, and a line billed by time.\<close>

definition legacyItem :: "rat \<Rightarrow> rat \<Rightarrow> Item" where
  "legacyItem q u =
     \<lparr> itemDescription = ''work'', quantity = Some q, unitPrice = Some u,
       itemHours = None, itemRate = None, rateModifierId = None, itemDistance = None,
       taxes = [] \<rparr>"

definition timeItem :: "rat \<Rightarrow> rat \<Rightarrow> string option \<Rightarrow> rat option \<Rightarrow> Item" where
  "timeItem h r mid d =
     \<lparr> itemDescription = ''shift'', quantity = None, unitPrice = None,
       itemHours = Some h, itemRate = Some r, rateModifierId = mid, itemDistance = d,
       taxes = [] \<rparr>"


text \<open>The modifier that the migration inserts, a holiday modifier, and one that is free.\<close>

definition standardModifier :: RateModifier where
  "standardModifier =
     \<lparr> rm_id = ''standard'', rm_name = ''Standard'', multiplier = 1,
       description = Some ''Regular daytime work'', isDefault = True \<rparr>"

definition holidayModifier :: RateModifier where
  "holidayModifier =
     \<lparr> rm_id = ''holiday'', rm_name = ''Holiday'', multiplier = 3 / 2,
       description = None, isDefault = False \<rparr>"

definition freeModifier :: RateModifier where
  "freeModifier =
     \<lparr> rm_id = ''free'', rm_name = ''Pro bono'', multiplier = 0,
       description = None, isDefault = False \<rparr>"

definition exampleRows :: "RateModifier list" where
  "exampleRows = [standardModifier, holidayModifier, freeModifier]"

text \<open>The store after the migration, and a store with three modifiers, one of them in use.\<close>

definition initialStore :: Store where
  "initialStore = \<lparr> rate_modifiers = [standardModifier], invoice_items = [] \<rparr>"


text \<open>Requests: invoice data with items and a configuration, the rest left to the defaults.\<close>

definition request ::
  "Item list \<Rightarrow> rat option \<Rightarrow> rat option \<Rightarrow> bool \<Rightarrow> RoundingMode \<Rightarrow> InvoiceData" where
  "request its amt tr incl mode =
     \<lparr> data_items = its, data_discountPercentage = None, data_discountAmount = amt,
       data_taxRate = tr, data_pricesIncludeTax = Some incl, data_roundingMode = Some mode \<rparr>"

definition settingsDefaults :: Defaults where
  "settingsDefaults =
     \<lparr> defaultPricesIncludeTax = False, defaultRoundingMode = Line, defaultTaxRate = 0 \<rparr>"

definition existingInvoice :: Existing where
  "existingInvoice =
     \<lparr> ex_discountPercentage = 0, ex_discountAmount = 0, ex_taxRate = 0,
       ex_pricesIncludeTax = None, ex_roundingMode = None \<rparr>"

section \<open>Properties of rounding\<close>

lemma falsy_or_Some_0 [simp]: "falsy_or (Some v) 0 = v"
  by (simp add: falsy_or_def)

lemma falsy_or_None [simp]: "falsy_or None d = d"
  by (simp add: falsy_or_def)













section \<open>Properties of the discount\<close>














section \<open>Properties of the recalculation pass\<close>










text \<open>
  C5. Every tax computation should check the divisor \<open>1 + rate\<close> before dividing.
  The two calculators do; the recalculation passes of \<open>createInvoice\<close> and
  \<open>updateInvoice\<close> divide by \<open>1 + taxRate / 100\<close> unchecked, and a tax rate of -100
  with prices that include tax makes the divisor zero: the pass has no finite tax
  amount, while \<open>calculateInvoiceTotals\<close> on the same request has.
\<close>

theorem recalculation_divides_by_zero:
  "\<not> hasPerLineTaxes [legacyItem 1 100]
   \<and> createInvoice_recalculated [] None
      (request [legacyItem 1 100] None (Some (- 100)) True Line) settingsDefaults = None
   \<and> updateInvoice_recalculated [] None
      (request [legacyItem 1 100] None (Some (- 100)) True Line) existingInvoice = None
   \<and> jsdiv 100 (1 + (- 100) / 100) = None
   \<and> createInvoice_calculated
        (request [legacyItem 1 100] None (Some (- 100)) True Line) settingsDefaults
       = \<lparr> subtotal = 100, discountAmount = 0, taxAmount = 0, total = 100 \<rparr>"
  by code_simp

section \<open>Properties of the tax amounts\<close>


















section \<open>Properties of the rounding modes\<close>




























section \<open>Properties of line valuation\<close>




text \<open>
  C10. A multiplier of 0 is treated as 1.0: \<open>calculateTimeBasedLineTotal\<close> gives the
  same result for \<open>modifierMultiplier = 0\<close> as for \<open>1\<close>, and a stored multiplier of 0
  resolves to 1, so a zero multiplier never zeroes a time-based line.
\<close>

theorem zero_multiplier_is_one:
  "calculateTimeBasedLineTotal (params\<lparr>modifierMultiplier := 0\<rparr>)
     = calculateTimeBasedLineTotal (params\<lparr>modifierMultiplier := 1\<rparr>)
   \<and> (i \<noteq> [] \<and> selectMultiplier rows i = Some 0 \<longrightarrow> resolveMultiplier rows (Some i) = 1)
   \<and> (i \<noteq> [] \<and> selectMultiplier rows i = Some 0 \<and> itemHours item = Some h \<and> h > 0
        \<and> rateModifierId item = Some i
      \<longrightarrow> lineTotal rows setting item
            = r2 (falsy_or (itemRate item) 0 * h
                  + falsy_or (itemDistance item) 0 * resolveMileageRate setting))"
  by (auto simp: calculateTimeBasedLineTotal_def resolveMultiplier_def lineTotal_def
      isTimeBased_def resolveMileageRate_def falsy_or_def split: option.splits)

lemma zero_multiplier_example:
  "''free'' \<noteq> [] \<and> selectMultiplier exampleRows ''free'' = Some 0
   \<and> itemHours (timeItem 8 20 (Some ''free'') None) = Some 8 \<and> (8 :: rat) > 0
   \<and> rateModifierId (timeItem 8 20 (Some ''free'') None) = Some ''free''"
  by code_simp

theorem zero_multiplier_is_one_witness:
  "''free'' \<noteq> [] \<and> selectMultiplier exampleRows ''free'' = Some 0
   \<and> itemHours (timeItem 8 20 (Some ''free'') None) = Some 8 \<and> (8 :: rat) > 0
   \<and> rateModifierId (timeItem 8 20 (Some ''free'') None) = Some ''free''
   \<and> resolveMultiplier exampleRows (Some ''free'') = 1
   \<and> lineTotal exampleRows None (timeItem 8 20 (Some ''free'') None)
       = r2 (falsy_or (itemRate (timeItem 8 20 (Some ''free'') None)) 0 * 8
             + falsy_or (itemDistance (timeItem 8 20 (Some ''free'') None)) 0
               * resolveMileageRate None)"
  using zero_multiplier_is_one[where i = "''free''" and rows = exampleRows
      and item = "timeItem 8 20 (Some ''free'') None" and h = 8 and setting = None]
    zero_multiplier_example
  by blast

section \<open>Properties of the rate modifier store\<close>

lemma filter_isDefault_unset: "filter isDefault (map (\<lambda>r. r\<lparr>isDefault := False\<rparr>) rows) = []"
  by (induction rows) simp_all

lemma length_filter_mono:
  "(\<And>x. x \<in> set xs \<Longrightarrow> P x \<Longrightarrow> Q x) \<Longrightarrow> length (filter P xs) \<le> length (filter Q xs)"
  by (induction xs) auto

lemma length_filter_id_distinct:
  "distinct (map f xs) \<Longrightarrow> length (filter (\<lambda>r. f r = i) xs) \<le> 1"
  by (induction xs) (auto simp: filter_empty_conv image_iff)

lemma create_preserves_atMostOneDefault:
  "atMostOneDefault db \<Longrightarrow> atMostOneDefault (snd (createRateModifier newId data db))"
  by (auto simp: createRateModifier_def atMostOneDefault_def unsetDefaults_def Let_def
      bool_or_def filter_isDefault_unset split: option.splits)

lemma delete_preserves_atMostOneDefault:
  "atMostOneDefault db \<Longrightarrow> atMostOneDefault (snd (deleteRateModifier i db))"
proof -
  have "length (filter isDefault (filter (\<lambda>r. rm_id r \<noteq> i) rows)) \<le> length (filter isDefault rows)"
    for rows :: "RateModifier list"
    unfolding filter_filter by (rule length_filter_mono) simp
  then show "atMostOneDefault db \<Longrightarrow> atMostOneDefault (snd (deleteRateModifier i db))"
    by (auto simp: deleteRateModifier_def atMostOneDefault_def Let_def
        split: option.splits intro: order_trans)
qed

lemma defaults_after_update:
  "length (filter isDefault (map (\<lambda>r. if rm_id r = i
                                 then r\<lparr> rm_name := n, multiplier := mu,
                                         description := de, isDefault := b \<rparr>
                                 else r) rows))
      = length (filter (\<lambda>r. if rm_id r = i then b else isDefault r) rows)"
  by (induction rows) auto

lemma matches_after_unset:
  "b \<Longrightarrow> length (filter (\<lambda>r. if rm_id r = i then b else isDefault r)
              (map (\<lambda>r. r\<lparr>isDefault := False\<rparr>) rows))
          = length (filter (\<lambda>r. rm_id r = i) rows)"
  by (induction rows) auto

lemma update_preserves_atMostOneDefault:
  assumes "atMostOneDefault db" and "distinct (map rm_id (rate_modifiers db))"
  shows "atMostOneDefault (snd (updateRateModifier i data db))"
proof (cases "getRateModifierById db i")
  case None
  with assms show ?thesis by (simp add: updateRateModifier_def)
next
  case (Some existing)
  then have m: "existing \<in> set (rate_modifiers db)" "rm_id existing = i"
    by (auto simp: getRateModifierById_def find_Some_iff)
  have uniq: "r = existing" if "r \<in> set (rate_modifiers db)" "rm_id r = i" for r
    using assms(2) m that by (auto simp: distinct_map dest: inj_onD)
  define isDef where "isDef = bool_or (ud_isDefault data) (isDefault existing)"
  define rows1 where "rows1 = (if isDef \<and> \<not> isDefault existing
       then map (\<lambda>r. r\<lparr>isDefault := False\<rparr>) (rate_modifiers db) else rate_modifiers db)"
  define n where "n = (case ud_name data of None \<Rightarrow> rm_name existing | Some x \<Rightarrow> x)"
  define mu where "mu = nullish_or (ud_multiplier data) (multiplier existing)"
  define de where "de = (case ud_description data of None \<Rightarrow> description existing
                         | Some d \<Rightarrow> Some d)"
  have res: "rate_modifiers (snd (updateRateModifier i data db))
      = map (\<lambda>r. if rm_id r = i
                 then r\<lparr> rm_name := n, multiplier := mu, description := de, isDefault := isDef \<rparr>
                 else r) rows1"
  proof (cases "isDef \<and> \<not> isDefault existing")
    case True
    then have "bool_or (ud_isDefault data) False" "\<not> isDefault existing"
      by (auto simp: isDef_def)
    then show ?thesis using Some
      by (simp add: updateRateModifier_def Let_def unsetDefaults_def isDef_def
          rows1_def n_def mu_def de_def)
  next
    case False
    then have "\<not> (bool_or (ud_isDefault data) (isDefault existing) \<and> \<not> isDefault existing)"
      by (simp add: isDef_def)
    then show ?thesis using Some
      by (simp add: updateRateModifier_def Let_def isDef_def
          rows1_def n_def mu_def de_def del: de_Morgan_conj not_not)
  qed
  have "length (filter (\<lambda>r. if rm_id r = i then isDef else isDefault r) rows1) \<le> 1"
  proof (cases "isDef \<and> \<not> isDefault existing")
    case True
    then have r1: "rows1 = map (\<lambda>r. r\<lparr>isDefault := False\<rparr>) (rate_modifiers db)"
      by (simp add: rows1_def)
    have "length (filter (\<lambda>r. if rm_id r = i then isDef else isDefault r) rows1)
        = length (filter (\<lambda>r. rm_id r = i) (rate_modifiers db))"
      unfolding r1 using True by (intro matches_after_unset) simp
    also have "\<dots> \<le> 1" using assms(2) by (rule length_filter_id_distinct)
    finally show ?thesis .
  next
    case False
    then have "rows1 = rate_modifiers db" by (auto simp: rows1_def)
    moreover have "length (filter (\<lambda>r. if rm_id r = i then isDef else isDefault r) (rate_modifiers db))
          \<le> length (filter isDefault (rate_modifiers db))"
      using False uniq by (intro length_filter_mono) (auto split: if_splits)
    ultimately show ?thesis using assms(1) by (simp add: atMostOneDefault_def)
  qed
  then show ?thesis
    unfolding atMostOneDefault_def res defaults_after_update .
qed

lemma ids_create: "distinct (map rm_id (rate_modifiers db)) \<Longrightarrow>
   distinct (map rm_id (rate_modifiers (snd (createRateModifier newId data db))))"
  by (auto simp: createRateModifier_def Let_def unsetDefaults_def list_ex_iff comp_def)

lemma ids_update: "map rm_id (rate_modifiers (snd (updateRateModifier i data db))) = map rm_id (rate_modifiers db)"
  by (auto simp: updateRateModifier_def Let_def unsetDefaults_def comp_def split: option.splits)

lemma ids_delete: "distinct (map rm_id (rate_modifiers db)) \<Longrightarrow>
   distinct (map rm_id (rate_modifiers (snd (deleteRateModifier i db))))"
  by (auto simp: deleteRateModifier_def Let_def distinct_map_filter split: option.splits)

lemma create_preserves_exactlyOneDefault:
  "exactlyOneDefault db \<Longrightarrow> \<not> list_ex (\<lambda>r. rm_id r = newId) (rate_modifiers db) \<Longrightarrow>
   exactlyOneDefault (snd (createRateModifier newId data db))"
  by (auto simp: createRateModifier_def exactlyOneDefault_def unsetDefaults_def Let_def
      bool_or_def filter_isDefault_unset list_ex_iff split: option.splits)

lemma delete_preserves_exactlyOneDefault:
  assumes "exactlyOneDefault db" and "distinct (map rm_id (rate_modifiers db))"
  shows "exactlyOneDefault (snd (deleteRateModifier i db))"
proof (cases "getRateModifierById db i")
  case None
  with assms show ?thesis by (simp add: deleteRateModifier_def)
next
  case (Some m)
  then have m: "m \<in> set (rate_modifiers db)" "rm_id m = i"
    by (auto simp: getRateModifierById_def find_Some_iff)
  have "r = m" if "r \<in> set (rate_modifiers db)" "rm_id r = i" for r
    using assms(2) m that by (auto simp: distinct_map dest: inj_onD)
  then have "filter isDefault (filter (\<lambda>r. rm_id r \<noteq> i) (rate_modifiers db))
               = filter isDefault (rate_modifiers db)" if "\<not> isDefault m"
    using that by (auto intro!: filter_cong)
  with assms(1) Some show ?thesis
    by (simp add: deleteRateModifier_def exactlyOneDefault_def Let_def)
qed





text \<open>
  C6. Every mutation should keep exactly one modifier flagged as the default.
  \<open>createRateModifier\<close> and \<open>deleteRateModifier\<close> do (lemmas above);
  \<open>updateRateModifier\<close> does not: updating the only default with \<open>isDefault: false\<close>
  leaves the table without a default.
\<close>

theorem update_clears_the_only_default:
  "exactlyOneDefault initialStore
   \<and> \<not> exactlyOneDefault
         (snd (updateRateModifier ''standard''
                 \<lparr> ud_name = None, ud_multiplier = None, ud_description = None,
                   ud_isDefault = Some False \<rparr> initialStore))
   \<and> filter isDefault
         (rate_modifiers
            (snd (updateRateModifier ''standard''
                    \<lparr> ud_name = None, ud_multiplier = None, ud_description = None,
                      ud_isDefault = Some False \<rparr> initialStore))) = []"
  by code_simp

end
